theory Spec2Isabelle
  imports Complex_Main
begin

section \<open>Floating-point values\<close>

text \<open>
  The program computes with Python and numpy floats. A finite float is the real number
  it stands for. The special values are kept, because numpy produces them where plain
  Python would raise: the mean of an empty sequence is NaN, a division by zero gives an
  infinity or NaN, the square root of a negative number is NaN. Signed zeros are not
  distinguished.

  The operations \<open>fl_add\<close>, \<open>fl_mul\<close>, ... below are exact on finite values. A double
  operation is the exact operation followed by rounding; the rounding is a parameter
  \<open>rd\<close> of the model, of which nothing is assumed (it may also overflow to an infinity).
  The Rule Inspector compares the data with a threshold it computes, so there every
  operation is rounded by \<open>rd\<close>. The Control Limit Estimator is kept in exact arithmetic,
  and only properties that rounding to nearest preserves are stated of its finite results.
\<close>

datatype npfloat = Fin real | PInf | NInf | NaN

definition inf_of_sign :: "real \<Rightarrow> npfloat" where
  "inf_of_sign s = (if s = 0 then NaN else if 0 < s then PInf else NInf)"

fun fl_neg :: "npfloat \<Rightarrow> npfloat" where
  "fl_neg (Fin x) = Fin (- x)"
| "fl_neg PInf = NInf"
| "fl_neg NInf = PInf"
| "fl_neg NaN = NaN"

fun fl_add :: "npfloat \<Rightarrow> npfloat \<Rightarrow> npfloat" where
  "fl_add NaN _ = NaN"
| "fl_add _ NaN = NaN"
| "fl_add (Fin x) (Fin y) = Fin (x + y)"
| "fl_add PInf NInf = NaN"
| "fl_add NInf PInf = NaN"
| "fl_add PInf _ = PInf"
| "fl_add _ PInf = PInf"
| "fl_add NInf _ = NInf"
| "fl_add _ NInf = NInf"

definition fl_sub :: "npfloat \<Rightarrow> npfloat \<Rightarrow> npfloat" where
  "fl_sub a b = fl_add a (fl_neg b)"

fun fl_mul :: "npfloat \<Rightarrow> npfloat \<Rightarrow> npfloat" where
  "fl_mul NaN _ = NaN"
| "fl_mul _ NaN = NaN"
| "fl_mul (Fin x) (Fin y) = Fin (x * y)"
| "fl_mul (Fin x) PInf = inf_of_sign x"
| "fl_mul (Fin x) NInf = inf_of_sign (- x)"
| "fl_mul PInf (Fin y) = inf_of_sign y"
| "fl_mul NInf (Fin y) = inf_of_sign (- y)"
| "fl_mul PInf PInf = PInf"
| "fl_mul PInf NInf = NInf"
| "fl_mul NInf PInf = NInf"
| "fl_mul NInf NInf = PInf"

fun fl_div :: "npfloat \<Rightarrow> npfloat \<Rightarrow> npfloat" where
  "fl_div NaN _ = NaN"
| "fl_div _ NaN = NaN"
| "fl_div (Fin x) (Fin y) = (if y = 0 then inf_of_sign x else Fin (x / y))"
| "fl_div (Fin x) PInf = Fin 0"
| "fl_div (Fin x) NInf = Fin 0"
| "fl_div PInf (Fin y) = (if 0 \<le> y then PInf else NInf)"
| "fl_div NInf (Fin y) = (if 0 \<le> y then NInf else PInf)"
| "fl_div PInf _ = NaN"
| "fl_div NInf _ = NaN"

fun fl_sqrt :: "npfloat \<Rightarrow> npfloat" where
  "fl_sqrt (Fin x) = (if x < 0 then NaN else Fin (sqrt x))"
| "fl_sqrt PInf = PInf"
| "fl_sqrt NInf = NaN"
| "fl_sqrt NaN = NaN"

text \<open>The comparison \<open>a < b\<close>; every comparison with NaN is false.\<close>

fun fl_less :: "npfloat \<Rightarrow> npfloat \<Rightarrow> bool" where
  "fl_less NaN _ = False"
| "fl_less _ NaN = False"
| "fl_less (Fin x) (Fin y) = (x < y)"
| "fl_less PInf _ = False"
| "fl_less _ NInf = False"
| "fl_less NInf _ = True"
| "fl_less _ PInf = True"

text \<open>
  \<open>np.mean\<close> of a sequence of numbers: the sum divided by the length; for the empty
  sequence numpy warns and returns NaN, it does not raise.
\<close>

definition np_mean :: "real list \<Rightarrow> npfloat" where
  "np_mean xs = (if xs = [] then NaN else Fin (sum_list xs / real (length xs)))"

text \<open>
  Python's builtin \<open>max(0, x)\<close>: the first argument is kept unless the second is
  strictly greater.
\<close>

definition py_max0 :: "npfloat \<Rightarrow> npfloat" where
  "py_max0 x = (if fl_less (Fin 0) x then x else Fin 0)"

text \<open>
  Double arithmetic: the exact result, rounded by \<open>rd\<close> when it is finite.
\<close>

definition fl_round :: "(real \<Rightarrow> npfloat) \<Rightarrow> npfloat \<Rightarrow> npfloat" where
  "fl_round rd a = (case a of Fin x \<Rightarrow> rd x | PInf \<Rightarrow> PInf | NInf \<Rightarrow> NInf | NaN \<Rightarrow> NaN)"

definition dbl_add :: "(real \<Rightarrow> npfloat) \<Rightarrow> npfloat \<Rightarrow> npfloat \<Rightarrow> npfloat" where
  "dbl_add rd a b = fl_round rd (fl_add a b)"

definition dbl_sub :: "(real \<Rightarrow> npfloat) \<Rightarrow> npfloat \<Rightarrow> npfloat \<Rightarrow> npfloat" where
  "dbl_sub rd a b = fl_round rd (fl_sub a b)"

definition dbl_mul :: "(real \<Rightarrow> npfloat) \<Rightarrow> npfloat \<Rightarrow> npfloat \<Rightarrow> npfloat" where
  "dbl_mul rd a b = fl_round rd (fl_mul a b)"

definition dbl_div :: "(real \<Rightarrow> npfloat) \<Rightarrow> npfloat \<Rightarrow> npfloat \<Rightarrow> npfloat" where
  "dbl_div rd a b = fl_round rd (fl_div a b)"

section \<open>Errors\<close>

datatype py_error = ZeroDivisionError | ValueError | KeyError | EOFError

section \<open>Control Limit Estimator\<close>

record control_limits =
  CL :: npfloat
  UCL :: npfloat
  LCL :: npfloat

text \<open>
  \<open>calculate_control_limits(failure_rates, production_counts)\<close>. The source has no
  \<open>raise\<close> and calls only numpy functions that warn instead of raising, so the result is
  always on the \<open>Inr\<close> side; the sum type is the result type shared with the functions
  that can fail.
\<close>

definition calculate_control_limits :: "real list \<Rightarrow> int list \<Rightarrow> py_error + control_limits" where
  "calculate_control_limits failure_rates production_counts =
     (let cl = np_mean failure_rates;
          avg_n = np_mean (map real_of_int production_counts);
          std_dev = fl_sqrt (fl_div (fl_mul cl (fl_sub (Fin 1) cl)) avg_n);
          ucl = fl_add cl (fl_mul (Fin 3) std_dev);
          lcl = fl_sub cl (fl_mul (Fin 3) std_dev);
          lcl = py_max0 lcl
      in Inr \<lparr>CL = cl, UCL = ucl, LCL = lcl\<rparr>)"

section \<open>Rule Inspector\<close>

text \<open>
  The messages that \<open>inspection\<close> appends are six distinct string literals of the source;
  each is named by a constructor:
  \<^item> \<open>Rule1\<close>: "KURAL 1: Kontrol disi nokta tespit edildi! (UCL/LCL asildi)";
  \<^item> \<open>Rule2\<close>: "KURAL 2: Sistematik kayma tespit edildi! ...";
  \<^item> \<open>Rule3_increasing\<close>: "KURAL 3: Artan trend tespit edildi! ...";
  \<^item> \<open>Rule3_decreasing\<close>: "KURAL 3: Azalan trend tespit edildi! ...";
  \<^item> \<open>Rule4\<close>: "KURAL 4: Varyans artisi olabilir! ...";
  \<^item> \<open>In_control\<close>: "Surec kontrol altinda".
\<close>

datatype comment = Rule1 | Rule2 | Rule3_increasing | Rule3_decreasing | Rule4 | In_control

text \<open>
  \<open>inspection(data, CL, UCL, LCL)\<close>, with the rounding \<open>rd\<close> of its double operations
  as first argument. The rates in \<open>data\<close> are finite; the limits are whatever the
  estimator returned. The threshold of Rule 4 is \<open>CL + (UCL - CL) * 2/3\<close> as Python
  evaluates it: a subtraction, a multiplication by 2, a division by 3 and an addition,
  each rounded. \<open>data[-k:]\<close> is read only when \<open>n \<ge> k\<close>, where it is
  \<open>drop (n - k) data\<close>; \<open>data[-1]\<close> is read only when \<open>n \<noteq> 0\<close>.
\<close>

definition inspection ::
  "(real \<Rightarrow> npfloat) \<Rightarrow> real list \<Rightarrow> npfloat \<Rightarrow> npfloat \<Rightarrow> npfloat \<Rightarrow> comment list" where
  "inspection rd data cl ucl lcl =
     (let comments = [];
          n = length data
      in if n = 0 then comments
      else
        let comments =
              (if fl_less ucl (Fin (last data)) \<or> fl_less (Fin (last data)) lcl
               then comments @ [Rule1] else comments);
            comments =
              (if 7 \<le> n then
                 (let last_7 = drop (n - 7) data;
                      above_cl = list_all (\<lambda>x. fl_less cl (Fin x)) last_7;
                      below_cl = list_all (\<lambda>x. fl_less (Fin x) cl) last_7
                  in if above_cl \<or> below_cl then comments @ [Rule2] else comments)
               else comments);
            comments =
              (if 6 \<le> n then
                 (let last_6 = drop (n - 6) data;
                      increasing = list_all (\<lambda>i. last_6 ! i < last_6 ! (i + 1)) [0..<5];
                      decreasing = list_all (\<lambda>i. last_6 ! i > last_6 ! (i + 1)) [0..<5]
                  in if increasing then comments @ [Rule3_increasing]
                     else if decreasing then comments @ [Rule3_decreasing]
                     else comments)
               else comments);
            comments =
              (if 4 \<le> n then
                 (let last_4 = drop (n - 4) data;
                      upper_zone = list_all (\<lambda>x. fl_less cl (Fin x) \<and> fl_less (Fin x) ucl) last_4;
                      mid_upper = dbl_add rd cl (dbl_div rd (dbl_mul rd (dbl_sub rd ucl cl) (Fin 2)) (Fin 3));
                      upper_extreme = list_all (\<lambda>x. fl_less mid_upper (Fin x)) last_4
                  in if upper_extreme \<and> upper_zone then comments @ [Rule4] else comments)
               else comments);
            comments = (if comments = [] then comments @ [In_control] else comments)
        in comments)"

subsection \<open>The rules as the specification words them\<close>

text \<open>
  The trigger conditions of the rule table, each over the most recent points of the
  history, for comparison with what \<open>inspection\<close> computes. The two-thirds point of
  Rule 4 is a double, computed with the same rounding \<open>rd\<close>.
\<close>

definition rule1_fires :: "real list \<Rightarrow> npfloat \<Rightarrow> npfloat \<Rightarrow> bool" where
  "rule1_fires data ucl lcl =
     (data \<noteq> [] \<and> (fl_less ucl (Fin (last data)) \<or> fl_less (Fin (last data)) lcl))"

definition rule2_fires :: "real list \<Rightarrow> npfloat \<Rightarrow> bool" where
  "rule2_fires data cl =
     (7 \<le> length data \<and>
      (list_all (\<lambda>x. fl_less cl (Fin x)) (drop (length data - 7) data) \<or>
       list_all (\<lambda>x. fl_less (Fin x) cl) (drop (length data - 7) data)))"

definition rule3_increasing :: "real list \<Rightarrow> bool" where
  "rule3_increasing data =
     (6 \<le> length data \<and> sorted_wrt (<) (drop (length data - 6) data))"

definition rule3_decreasing :: "real list \<Rightarrow> bool" where
  "rule3_decreasing data =
     (6 \<le> length data \<and> sorted_wrt (>) (drop (length data - 6) data))"

definition rule4_fires :: "(real \<Rightarrow> npfloat) \<Rightarrow> real list \<Rightarrow> npfloat \<Rightarrow> npfloat \<Rightarrow> bool" where
  "rule4_fires rd data cl ucl =
     (4 \<le> length data \<and>
      list_all (\<lambda>x. fl_less cl (Fin x) \<and> fl_less (Fin x) ucl \<and>
                     fl_less (dbl_add rd cl (dbl_div rd (dbl_mul rd (dbl_sub rd ucl cl) (Fin 2)) (Fin 3))) (Fin x))
        (drop (length data - 4) data))"

section \<open>Hourly Sample Generator\<close>

text \<open>
  The random source is a parameter: \<open>normal loc scale\<close> and \<open>poisson lam\<close> are the two
  draws of \<open>np.random\<close> that the program makes, each reading and advancing the generator
  state \<open>'g\<close>. Nothing is assumed about the values they return.
\<close>

record 'g np_random =
  normal :: "real \<Rightarrow> real \<Rightarrow> 'g \<Rightarrow> real \<times> 'g"
  poisson :: "real \<Rightarrow> 'g \<Rightarrow> nat \<times> 'g"

text \<open>
  numpy checks the parameters of a distribution before it draws: a negative \<open>scale\<close>
  and a negative \<open>lam\<close> raise \<open>ValueError\<close>. (It also rejects a \<open>lam\<close> above about
  \<open>9.2e18\<close>; the model has no such bound, so it returns wherever the code does.)
\<close>

definition np_random_normal ::
  "'g np_random \<Rightarrow> real \<Rightarrow> real \<Rightarrow> 'g \<Rightarrow> py_error + (real \<times> 'g)" where
  "np_random_normal rnd loc scale g =
     (if scale < 0 then Inl ValueError else Inr (normal rnd loc scale g))"

definition np_random_poisson ::
  "'g np_random \<Rightarrow> real \<Rightarrow> 'g \<Rightarrow> py_error + (nat \<times> 'g)" where
  "np_random_poisson rnd lam g =
     (if lam < 0 then Inl ValueError else Inr (poisson rnd lam g))"

text \<open>Python's \<open>int(x)\<close> on a float: truncation towards zero.\<close>

definition py_int :: "real \<Rightarrow> int" where
  "py_int x = (if 0 \<le> x then \<lfloor>x\<rfloor> else \<lceil>x\<rceil>)"

text \<open>
  \<open>mhConverter(monthly_production, monthly_defects, days, shifts, hours_per_shift, sigma)\<close>
  returns \<open>(hourly_production, hourly_defects, failure_rate)\<close>. The two true divisions of
  integers raise \<open>ZeroDivisionError\<close> on a zero divisor.
\<close>

definition mhConverter ::
  "'g np_random \<Rightarrow> int \<Rightarrow> int \<Rightarrow> int \<Rightarrow> int \<Rightarrow> int \<Rightarrow> real \<Rightarrow> 'g
     \<Rightarrow> py_error + ((int \<times> int \<times> real) \<times> 'g)" where
  "mhConverter rnd monthly_production monthly_defects days shifts hours_per_shift sigma g =
     (let total_hours = days * shifts * hours_per_shift
      in if total_hours = 0 then Inl ZeroDivisionError
      else
        (let avg_hourly_production = real_of_int monthly_production / real_of_int total_hours
         in (case np_random_normal rnd avg_hourly_production (avg_hourly_production * sigma) g of
               Inl e \<Rightarrow> Inl e
             | Inr (x, g1) \<Rightarrow>
                 (let hourly_production = py_int x
                  in if monthly_production = 0 then Inl ZeroDivisionError
                  else
                    (let defect_rate =
                           real_of_int monthly_defects / real_of_int monthly_production;
                         expected_hourly_defects = defect_rate * real_of_int hourly_production
                     in (case np_random_poisson rnd expected_hourly_defects g1 of
                           Inl e \<Rightarrow> Inl e
                         | Inr (hourly_defects, g2) \<Rightarrow>
                             (let failure_rate =
                                    (if 0 < hourly_production
                                     then real hourly_defects / real_of_int hourly_production
                                     else 0)
                              in Inr ((hourly_production, int hourly_defects, failure_rate),
                                      g2))))))))"

text \<open>The call with the default \<open>days=26, shifts=2, hours_per_shift=8\<close>.\<close>

definition mhConverter_default ::
  "'g np_random \<Rightarrow> int \<Rightarrow> int \<Rightarrow> real \<Rightarrow> 'g \<Rightarrow> py_error + ((int \<times> int \<times> real) \<times> 'g)" where
  "mhConverter_default rnd monthly_production monthly_defects sigma g =
     mhConverter rnd monthly_production monthly_defects 26 2 8 sigma g"

section \<open>Line Registry and Baseline Initializer\<close>

record line_data =
  monthly_production :: int
  monthly_defects :: int

definition PRODUCTION_LINES :: "(string \<times> line_data) list" where
  "PRODUCTION_LINES =
     [(''First Exterior'', \<lparr>monthly_production = 800000, monthly_defects = 11000\<rparr>),
      (''First Interior'', \<lparr>monthly_production = 950000, monthly_defects = 10000\<rparr>),
      (''Second Exterior'', \<lparr>monthly_production = 800000, monthly_defects = 11000\<rparr>),
      (''Second Interior'', \<lparr>monthly_production = 1045000, monthly_defects = 10000\<rparr>),
      (''Third Exterior'', \<lparr>monthly_production = 825000, monthly_defects = 11000\<rparr>),
      (''Third Interior'', \<lparr>monthly_production = 2440000, monthly_defects = 10000\<rparr>),
      (''Fourth Exterior'', \<lparr>monthly_production = 908000, monthly_defects = 10000\<rparr>),
      (''Fourth Interior'', \<lparr>monthly_production = 798000, monthly_defects = 11000\<rparr>)]"

text \<open>
  The loop \<open>for _ in range(50)\<close> of \<open>initialize_control_limits\<close>, with the number of
  remaining iterations as first argument; an exception of \<open>mhConverter\<close> leaves the loop.
\<close>

fun warmup_loop ::
  "nat \<Rightarrow> 'g np_random \<Rightarrow> line_data \<Rightarrow> real \<Rightarrow> real list \<Rightarrow> int list \<Rightarrow> 'g
     \<Rightarrow> py_error + (real list \<times> int list \<times> 'g)" where
  "warmup_loop 0 rnd ld sigma failure_rates production_counts g =
     Inr (failure_rates, production_counts, g)"
| "warmup_loop (Suc k) rnd ld sigma failure_rates production_counts g =
     (case mhConverter_default rnd (monthly_production ld) (monthly_defects ld) sigma g of
        Inl e \<Rightarrow> Inl e
      | Inr ((prd, defects, rate), g') \<Rightarrow>
          warmup_loop k rnd ld sigma (failure_rates @ [rate]) (production_counts @ [prd]) g')"

definition initialize_control_limits ::
  "'g np_random \<Rightarrow> string \<Rightarrow> line_data \<Rightarrow> real \<Rightarrow> 'g \<Rightarrow> py_error + (control_limits \<times> 'g)" where
  "initialize_control_limits rnd line_name ld sigma g =
     (case warmup_loop 50 rnd ld sigma [] [] g of
        Inl e \<Rightarrow> Inl e
      | Inr (failure_rates, production_counts, g') \<Rightarrow>
          (case calculate_control_limits failure_rates production_counts of
             Inl e \<Rightarrow> Inl e
           | Inr l \<Rightarrow> Inr (l, g')))"

section \<open>Monitoring Loop\<close>

text \<open>
  The first loop of \<open>run_simulation\<close>: for every line of the registry, in order, the
  limits of \<open>initialize_control_limits(line_name, line_data, sigma=0.03)\<close> are stored
  under the line's name. The argument \<open>sigma\<close> of \<open>run_simulation\<close> is not read here.
\<close>

fun control_limits_loop ::
  "'g np_random \<Rightarrow> (string \<times> line_data) list \<Rightarrow> (string \<rightharpoonup> control_limits) \<Rightarrow> 'g
     \<Rightarrow> py_error + ((string \<rightharpoonup> control_limits) \<times> 'g)" where
  "control_limits_loop rnd [] limits g = Inr (limits, g)"
| "control_limits_loop rnd ((line_name, ld) # lines) limits g =
     (case initialize_control_limits rnd line_name ld (3 / 100) g of
        Inl e \<Rightarrow> Inl e
      | Inr (l, g') \<Rightarrow> control_limits_loop rnd lines (limits(line_name \<mapsto> l)) g')"

record line_history =
  hours :: "nat list"
  rates :: "real list"
  productions :: "int list"

text \<open>What one tick prints for one line: the sample and the inspection result.\<close>

record line_report =
  report_line :: string
  report_production :: int
  report_defects :: int
  report_rate :: real
  report_comments :: "comment list"

text \<open>
  The body of the \<open>while\<close> loop for one hour: every line draws a sample with the live
  \<open>sigma\<close>, appends it to its history and is inspected against its limits.
\<close>

fun tick_lines ::
  "(real \<Rightarrow> npfloat) \<Rightarrow> 'g np_random \<Rightarrow> real \<Rightarrow> nat \<Rightarrow> (string \<times> line_data) list \<Rightarrow> (string \<rightharpoonup> control_limits)
     \<Rightarrow> (string \<rightharpoonup> line_history) \<Rightarrow> line_report list \<Rightarrow> 'g
     \<Rightarrow> py_error + ((string \<rightharpoonup> line_history) \<times> line_report list \<times> 'g)" where
  "tick_lines rd rnd sigma current_hour [] limits hourly_data out g = Inr (hourly_data, out, g)"
| "tick_lines rd rnd sigma current_hour ((line_name, ld) # lines) limits hourly_data out g =
     (case limits line_name of
        None \<Rightarrow> Inl KeyError
      | Some l \<Rightarrow>
          (case mhConverter_default rnd (monthly_production ld) (monthly_defects ld) sigma g of
             Inl e \<Rightarrow> Inl e
           | Inr ((prd, defects, rate), g') \<Rightarrow>
               (case hourly_data line_name of
                  None \<Rightarrow> Inl KeyError
                | Some h \<Rightarrow>
                    (let h' = h\<lparr>hours := hours h @ [current_hour],
                                 rates := rates h @ [rate],
                                 productions := productions h @ [prd]\<rparr>;
                         comments = inspection rd (rates h') (CL l) (UCL l) (LCL l);
                         r = \<lparr>report_line = line_name, report_production = prd,
                              report_defects = defects, report_rate = rate,
                              report_comments = comments\<rparr>
                     in tick_lines rd rnd sigma current_hour lines limits
                          (hourly_data(line_name \<mapsto> h')) (out @ [r]) g'))))"

record 'g simulation =
  frozen_limits :: "string \<rightharpoonup> control_limits"
  histories :: "string \<rightharpoonup> line_history"
  total_hours_simulated :: nat
  printed :: "line_report list"
  generator :: 'g

text \<open>
  The \<open>while True\<close> loop. It stops only on the user's answer, so it is driven by the
  answers that the prompt will read: \<open>True\<close> stands for an answer that is \<open>q\<close> after
  \<open>strip().lower()\<close>, \<open>False\<close> for any other line. When the answers run out, \<open>input\<close>
  raises \<open>EOFError\<close>.
\<close>

fun monitoring_loop ::
  "(real \<Rightarrow> npfloat) \<Rightarrow> 'g np_random \<Rightarrow> real \<Rightarrow> (string \<times> line_data) list \<Rightarrow> (string \<rightharpoonup> control_limits)
     \<Rightarrow> (string \<rightharpoonup> line_history) \<Rightarrow> nat \<Rightarrow> line_report list \<Rightarrow> bool list \<Rightarrow> 'g
     \<Rightarrow> py_error + 'g simulation" where
  "monitoring_loop rd rnd sigma lines limits hourly_data current_hour out [] g =
     (case tick_lines rd rnd sigma current_hour lines limits hourly_data out g of
        Inl e \<Rightarrow> Inl e
      | Inr (hourly_data', out', g') \<Rightarrow> Inl EOFError)"
| "monitoring_loop rd rnd sigma lines limits hourly_data current_hour out (quit # answers) g =
     (case tick_lines rd rnd sigma current_hour lines limits hourly_data out g of
        Inl e \<Rightarrow> Inl e
      | Inr (hourly_data', out', g') \<Rightarrow>
          if quit
          then Inr \<lparr>frozen_limits = limits, histories = hourly_data',
                    total_hours_simulated = current_hour, printed = out', generator = g'\<rparr>
          else monitoring_loop rd rnd sigma lines limits hourly_data' (current_hour + 1) out'
                 answers g')"

text \<open>
  \<open>run_simulation(sigma, mode)\<close> in text mode (the other mode adds only the plotting
  calls), with the rounding \<open>rd\<close> that the inspector's double operations use: the limits of every line are computed first, then the histories start empty
  and the loop begins at hour 1.
\<close>

definition run_simulation ::
  "(real \<Rightarrow> npfloat) \<Rightarrow> 'g np_random \<Rightarrow> real \<Rightarrow> bool list \<Rightarrow> 'g \<Rightarrow> py_error + 'g simulation" where
  "run_simulation rd rnd sigma answers g =
     (case control_limits_loop rnd PRODUCTION_LINES Map.empty g of
        Inl e \<Rightarrow> Inl e
      | Inr (limits, g') \<Rightarrow>
          (let hourly_data =
                 map_of (map (\<lambda>line. (fst line, \<lparr>hours = [], rates = [], productions = []\<rparr>))
                           PRODUCTION_LINES)
           in monitoring_loop rd rnd sigma PRODUCTION_LINES limits hourly_data 1 [] answers g'))"

section \<open>Sample random sources\<close>

text \<open>
  A random source without state whose normal draw lies \<open>z\<close> standard deviations from the
  mean and whose Poisson draw is \<open>k\<close> times the integer part of the mean. It serves to
  run the definitions on concrete draws.
\<close>

definition fixed_draws :: "real \<Rightarrow> nat \<Rightarrow> unit np_random" where
  "fixed_draws z k =
     \<lparr>normal = (\<lambda>loc scale g. (loc + scale * z, g)),
      poisson = (\<lambda>lam g. (k * nat \<lfloor>lam\<rfloor>, g))\<rparr>"

text \<open>
  Python's \<open>round\<close> on a float, the rounding that the specification names: to the
  nearest integer, a tie going to the even neighbour.
\<close>

definition py_round :: "real \<Rightarrow> int" where
  "py_round x =
     (let f = \<lfloor>x\<rfloor>; d = x - real_of_int f
      in if d < 1 / 2 then f else if 1 / 2 < d then f + 1 else if even f then f else f + 1)"

section \<open>Properties of the Control Limit Estimator\<close>

lemma calculate_control_limits_total:
  "\<exists>l. calculate_control_limits failure_rates production_counts = Inr l"
  by (simp add: calculate_control_limits_def Let_def)

lemma sum_list_bounds:
  fixes xs :: "real list"
  assumes "\<forall>x\<in>set xs. a \<le> x \<and> x \<le> b"
  shows "a * real (length xs) \<le> sum_list xs \<and> sum_list xs \<le> b * real (length xs)"
  using assms by (induction xs) (auto simp: algebra_simps)

lemma np_mean_bounds:
  assumes "xs \<noteq> []" and "\<forall>x\<in>set xs. a \<le> x \<and> x \<le> b"
  shows "\<exists>m. np_mean xs = Fin m \<and> a \<le> m \<and> m \<le> b"
proof -
  have len: "0 < real (length xs)" using assms(1) by simp
  from sum_list_bounds[OF assms(2)]
  have "a \<le> sum_list xs / real (length xs)" and "sum_list xs / real (length xs) \<le> b"
    using len by (simp_all add: pos_le_divide_eq pos_divide_le_eq)
  then show ?thesis using assms(1) by (simp add: np_mean_def)
qed

lemma np_mean_pos:
  assumes "cs \<noteq> []" and "\<forall>c\<in>set cs. 0 < c"
  shows "\<exists>m. np_mean (map real_of_int cs) = Fin m \<and> 1 \<le> m"
proof -
  have len: "0 < real (length cs)" using assms(1) by simp
  have "\<forall>x\<in>set (map real_of_int cs). 1 \<le> x \<and> x \<le> x"
    using assms(2) by auto
  then have "\<forall>x\<in>set (map real_of_int cs). 1 \<le> x" by simp
  have "real (length cs) \<le> sum_list (map real_of_int cs)"
    using assms(2) by (induction cs) (auto)
  then have "1 \<le> sum_list (map real_of_int cs) / real (length cs)"
    using len by (simp add: pos_le_divide_eq)
  then show ?thesis using assms(1) by (simp add: np_mean_def)
qed

lemma limits_finite:
  assumes cl: "np_mean failure_rates = Fin c" and n: "np_mean (map real_of_int production_counts) = Fin m"
    and c: "0 \<le> c" "c \<le> 1" and m: "0 < m"
  shows "calculate_control_limits failure_rates production_counts =
     Inr \<lparr>CL = Fin c, UCL = Fin (c + 3 * sqrt (c * (1 - c) / m)),
          LCL = Fin (max 0 (c - 3 * sqrt (c * (1 - c) / m)))\<rparr>"
proof -
  have "0 \<le> c * (1 - c) / m" using c m by simp
  then have nn: "\<not> c * (1 - c) / m < 0" by simp
  show ?thesis
    using m nn
    by (simp add: calculate_control_limits_def Let_def cl n fl_sub_def py_max0_def max_def)
qed

lemma mean_replicate: "0 < n \<Longrightarrow> np_mean (replicate n x) = Fin x"
  by (simp add: np_mean_def sum_list_replicate)


text \<open>
  Claim C1, as stated: for 26 rates, all 0.01, and any positive production counts the
  estimator returns CL = 0.01 and LCL = UCL = 0.01. With 26 counts of 99 the standard
  deviation is \<open>sqrt (0.01 * 0.99 / 99) = 0.01\<close>, so UCL is 0.04 and LCL is clamped to 0.
\<close>

theorem C1_constant_rates_counterexample:
  "calculate_control_limits (replicate 26 (1/100)) (replicate 26 99) =
     Inr \<lparr>CL = Fin (1/100), UCL = Fin (4/100), LCL = Fin 0\<rparr> \<and>
   calculate_control_limits (replicate 26 (1/100)) (replicate 26 99) \<noteq>
     Inr \<lparr>CL = Fin (1/100), UCL = Fin (1/100), LCL = Fin (1/100)\<rparr>"
proof -
  have a: "np_mean (replicate 26 (1/100)) = Fin (1/100)" by (rule mean_replicate) simp
  have "map real_of_int (replicate 26 99) = replicate 26 99" by simp
  then have b: "np_mean (map real_of_int (replicate 26 99)) = Fin 99"
    using mean_replicate[of 26 "99::real"] by simp
  have sq: "((1/100)::real)\<^sup>2 = (1/100) * (1 - 1/100) / 99" by (simp add: power2_eq_square)
  have s: "sqrt ((1/100) * (1 - 1/100) / 99) = 1/100"
    by (rule real_sqrt_unique[OF sq]) simp
  show ?thesis
    using limits_finite[OF a b] s by simp
qed


text \<open>
  Claim C1, amended: for 26 rates, all 0.01, and 26 positive production counts, the
  estimator returns CL = 0.01 and finite limits with \<open>0 \<le> LCL \<le> 0.01 \<le> UCL\<close>; LCL and UCL
  need not be equal to CL.
\<close>

theorem C1_constant_rates_limits:
  assumes "length production_counts = 26" and "\<forall>c\<in>set production_counts. 0 < c"
  shows "\<exists>u l. calculate_control_limits (replicate 26 (1/100)) production_counts =
           Inr \<lparr>CL = Fin (1/100), UCL = Fin u, LCL = Fin l\<rparr> \<and>
         0 \<le> l \<and> l \<le> 1/100 \<and> 1/100 \<le> u"
proof -
  have ne: "production_counts \<noteq> []" using assms(1) by auto
  from np_mean_pos[OF ne assms(2)]
  obtain m where m: "np_mean (map real_of_int production_counts) = Fin m" "1 \<le> m" by blast
  then have mpos: "0 < m" by simp
  have a: "np_mean (replicate 26 (1/100)) = Fin (1/100)" by (rule mean_replicate) simp
  have s: "0 \<le> sqrt ((1/100) * (1 - 1/100) / m)" using mpos by simp
  show ?thesis
    using limits_finite[OF a m(1) _ _ mpos] s by (auto simp: max_def)
qed

theorem C1_constant_rates_limits_witness:
  "length (replicate 26 (99::int)) = 26 \<and> list_all (\<lambda>c. 0 < c) (replicate 26 (99::int)) \<and>
   (\<exists>u l. calculate_control_limits (replicate 26 (1/100)) (replicate 26 99) =
           Inr \<lparr>CL = Fin (1/100), UCL = Fin u, LCL = Fin l\<rparr> \<and>
         0 \<le> l \<and> l \<le> 1/100 \<and> 1/100 \<le> u)"
proof -
  have h1: "length (replicate 26 (99::int)) = 26" by simp
  have h2: "\<forall>c\<in>set (replicate 26 (99::int)). 0 < c" by simp
  show ?thesis using h1 h2 C1_constant_rates_limits[OF h1 h2] by (simp add: list_all_iff)
qed

text \<open>
  Claim C4, as stated: called with empty sequences, the estimator fails with an
  invalid-input error. It does not: the result is not on the error side (\<open>isl\<close> holds
  of \<open>Inl\<close> values only).
\<close>

theorem C4_empty_input_counterexample:
  "\<not> isl (calculate_control_limits [] [])"
  by (simp add: calculate_control_limits_def Let_def)

text \<open>
  Claim C4, amended: called with empty sequences, the estimator raises no error and
  returns the limits CL = NaN, UCL = NaN, LCL = 0 (the zero of \<open>max(0, LCL)\<close>, which
  keeps its first argument when the comparison with NaN is false).
\<close>

theorem C4_empty_input_returns_nan:
  "calculate_control_limits [] [] = Inr \<lparr>CL = NaN, UCL = NaN, LCL = Fin 0\<rparr>"
  by (simp add: calculate_control_limits_def Let_def np_mean_def fl_sub_def py_max0_def)

text \<open>
  Claim C9: for non-empty sequences with every rate in \<open>[0, 1]\<close> and every production
  count positive, the estimator returns finite limits with \<open>0 \<le> LCL \<le> CL \<le> UCL\<close>.
\<close>

theorem C9_limits_ordered:
  assumes "failure_rates \<noteq> []" and "production_counts \<noteq> []"
    and "\<forall>r\<in>set failure_rates. 0 \<le> r \<and> r \<le> 1"
    and "\<forall>c\<in>set production_counts. 0 < c"
  shows "\<exists>c u l. calculate_control_limits failure_rates production_counts =
            Inr \<lparr>CL = Fin c, UCL = Fin u, LCL = Fin l\<rparr> \<and> 0 \<le> l \<and> l \<le> c \<and> c \<le> u"
proof -
  from np_mean_bounds[OF assms(1) assms(3)]
  obtain c where c: "np_mean failure_rates = Fin c" "0 \<le> c" "c \<le> 1" by blast
  from np_mean_pos[OF assms(2) assms(4)]
  obtain m where m: "np_mean (map real_of_int production_counts) = Fin m" "1 \<le> m" by blast
  then have mpos: "0 < m" by simp
  have s: "0 \<le> sqrt (c * (1 - c) / m)" using c mpos by simp
  show ?thesis
    using limits_finite[OF c(1) m(1) c(2) c(3) mpos] c(2) s by auto
qed


theorem C9_limits_ordered_witness:
  "[1/100, 3/100] \<noteq> ([]::real list) \<and> [99, 99] \<noteq> ([]::int list) \<and>
   list_all (\<lambda>r. 0 \<le> r \<and> r \<le> 1) [1/100, 3/100::real] \<and> list_all (\<lambda>c. 0 < c) [99, 99::int] \<and>
   (\<exists>c u l. calculate_control_limits [1/100, 3/100] [99, 99] =
            Inr \<lparr>CL = Fin c, UCL = Fin u, LCL = Fin l\<rparr> \<and> 0 \<le> l \<and> l \<le> c \<and> c \<le> u)"
  using C9_limits_ordered[of "[1/100, 3/100]" "[99, 99]"] by simp

section \<open>Properties of the Hourly Sample Generator\<close>

lemma mhConverter_negative_draw:
  assumes "0 < mp" and "0 < md"
    and "days * shifts * hours_per_shift \<noteq> 0"
    and "0 \<le> real_of_int mp / real_of_int (days * shifts * hours_per_shift) * sigma"
    and "fst (normal rnd (real_of_int mp / real_of_int (days * shifts * hours_per_shift))
           (real_of_int mp / real_of_int (days * shifts * hours_per_shift) * sigma) g) \<le> - 1"
  shows "mhConverter rnd mp md days shifts hours_per_shift sigma g
           = Inl ValueError"
proof -
  define x where "x = fst (normal rnd (real_of_int mp / real_of_int (days * shifts * hours_per_shift))
           (real_of_int mp / real_of_int (days * shifts * hours_per_shift) * sigma) g)"
  have xle: "x \<le> - 1" using assms(5) by (simp add: x_def)
  then have pi: "py_int x = \<lceil>x\<rceil>" by (simp add: py_int_def)
  have "\<lceil>x\<rceil> \<le> - 1" using xle by (simp add: ceiling_le_iff)
  with pi have neg: "py_int x < 0" by linarith
  have r: "0 < real_of_int md / real_of_int mp" using assms(1,2) by simp
  have n: "real_of_int (py_int x) < 0" using neg by simp
  have "real_of_int md / real_of_int mp * real_of_int (py_int x) < 0"
    by (rule mult_pos_neg[OF r n])
  then show ?thesis
    using assms(1,3,4)
    by (auto simp: mhConverter_def np_random_normal_def np_random_poisson_def Let_def x_def
        split: prod.splits)
qed


lemma mhConverter_guard:
  assumes "mhConverter rnd mp md days shifts hours_per_shift sigma g
             = Inr ((hourly_production, hourly_defects, failure_rate), g')"
    and "hourly_production \<le> 0"
  shows "failure_rate = 0"
  using assms
  by (auto simp: mhConverter_def Let_def split: if_splits prod.splits sum.splits)

text \<open>
  Claim C2 says that for valid parameters the generator always returns, the rate being 0
  when the drawn production count is not positive. At the valid parameters
  \<open>monthly_production = 800000\<close>, \<open>monthly_defects = 11000\<close>, \<open>sigma = 2\<close> and a normal
  draw one standard deviation below the mean (about \<open>-1923.08\<close>), the production count
  is \<open>-1923\<close>, the expected number of defects is negative, and the Poisson draw raises
  \<open>ValueError\<close> before the guard on the rate is reached.
\<close>

theorem C2_negative_production_raises:
  "mhConverter (fixed_draws (- 1) 1) 800000 11000 26 2 8 2 () = Inl ValueError"
  by (simp add: mhConverter_def fixed_draws_def np_random_normal_def np_random_poisson_def
      py_int_def Let_def)

text \<open>
  Claim C3, as stated: the production count is the normal sample rounded to the nearest
  integer. For the sample 1.7 the production count is 1, and \<open>round\<close> gives 2.
\<close>

theorem C3_round_counterexample:
  "mhConverter (fixed_draws (7/10) 0) 416 0 26 2 8 1 () = Inr ((1, 0, 0), ()) \<and>
   normal (fixed_draws (7/10) 0) (416 / (26 * 2 * 8)) (416 / (26 * 2 * 8) * 1) () = (17/10, ()) \<and>
   py_round (17/10) = 2"
  by (simp add: mhConverter_def fixed_draws_def np_random_normal_def np_random_poisson_def
      py_int_def py_round_def Let_def)

text \<open>
  Claim C3, amended: whenever the generator returns, the production count is the normal
  sample \<open>x\<close> truncated towards zero (\<open>int(x)\<close>): the floor of a non-negative sample, the
  ceiling of a negative one; its magnitude is at most that of the sample and less than 1
  below it.
\<close>

theorem C3_production_truncates:
  assumes "mhConverter rnd mp md days shifts hours_per_shift sigma g
             = Inr ((hourly_production, hourly_defects, failure_rate), g')"
    and "x = fst (normal rnd
                    (real_of_int mp / real_of_int (days * shifts * hours_per_shift))
                    (real_of_int mp / real_of_int (days * shifts * hours_per_shift) * sigma) g)"
  shows "hourly_production = (if 0 \<le> x then \<lfloor>x\<rfloor> else \<lceil>x\<rceil>) \<and>
         \<bar>real_of_int hourly_production\<bar> \<le> \<bar>x\<bar> \<and> \<bar>x\<bar> < \<bar>real_of_int hourly_production\<bar> + 1"
proof -
  have hp: "hourly_production = py_int x"
    using assms
    by (auto simp: mhConverter_def np_random_normal_def np_random_poisson_def Let_def
        split: if_splits prod.splits sum.splits)
  show ?thesis
  proof (cases "0 \<le> x")
    case True
    then have f: "0 \<le> \<lfloor>x\<rfloor>" by simp
    have "real_of_int \<lfloor>x\<rfloor> \<le> x" and "x < real_of_int \<lfloor>x\<rfloor> + 1" by linarith+
    with True f show ?thesis unfolding hp py_int_def by simp
  next
    case False
    then have c: "\<lceil>x\<rceil> \<le> 0" by (simp add: ceiling_le_iff)
    have "x \<le> real_of_int \<lceil>x\<rceil>" and "real_of_int \<lceil>x\<rceil> - 1 < x" by linarith+
    with False c show ?thesis unfolding hp py_int_def by simp
  qed
qed


theorem C3_production_truncates_witness:
  "mhConverter (fixed_draws (7/10) 0) 416 0 26 2 8 1 () = Inr ((1, 0, 0), ()) \<and>
   (1::int) = (if (0::real) \<le> 17/10 then \<lfloor>17/10::real\<rfloor> else \<lceil>17/10::real\<rceil>) \<and>
   \<bar>real_of_int 1\<bar> \<le> \<bar>17/10::real\<bar> \<and> \<bar>17/10::real\<bar> < \<bar>real_of_int 1\<bar> + 1"
proof -
  have run: "mhConverter (fixed_draws (7/10) 0) 416 0 26 2 8 1 () = Inr ((1, 0, 0), ())"
    by (simp add: mhConverter_def fixed_draws_def np_random_normal_def np_random_poisson_def
        py_int_def Let_def)
  have x: "17/10 = fst (normal (fixed_draws (7/10) 0)
                    (real_of_int 416 / real_of_int (26 * 2 * 8))
                    (real_of_int 416 / real_of_int (26 * 2 * 8) * 1) ())"
    by (simp add: fixed_draws_def)
  from C3_production_truncates[OF run x] run show ?thesis by simp
qed

section \<open>Properties of the Baseline Initializer\<close>

lemma warmup_loop_samples:
  assumes "warmup_loop n rnd ld sigma frs pcs g = Inr (frs', pcs', g')"
  shows "\<exists>new_rates new_counts.
           frs' = frs @ new_rates \<and> pcs' = pcs @ new_counts \<and>
           length new_rates = n \<and> length new_counts = n \<and>
           list_all2 (\<lambda>rate prd. \<exists>gi gi' d.
               mhConverter_default rnd (monthly_production ld) (monthly_defects ld) sigma gi
                 = Inr ((prd, d, rate), gi'))
             new_rates new_counts"
  using assms
proof (induction n arbitrary: frs pcs g)
  case 0
  then show ?case by simp
next
  case (Suc n)
  from Suc.prems obtain prd d rate g1 where
    step: "mhConverter_default rnd (monthly_production ld) (monthly_defects ld) sigma g
             = Inr ((prd, d, rate), g1)"
    and rest: "warmup_loop n rnd ld sigma (frs @ [rate]) (pcs @ [prd]) g1 = Inr (frs', pcs', g')"
    by (auto split: sum.splits prod.splits)
  from Suc.IH[OF rest] obtain nr nc where
    ih: "frs' = (frs @ [rate]) @ nr" "pcs' = (pcs @ [prd]) @ nc" "length nr = n" "length nc = n"
      "list_all2 (\<lambda>rate prd. \<exists>gi gi' d.
               mhConverter_default rnd (monthly_production ld) (monthly_defects ld) sigma gi
                 = Inr ((prd, d, rate), gi')) nr nc"
    by blast
  show ?case
  proof (intro exI conjI)
    show "frs' = frs @ (rate # nr)" using ih(1) by simp
    show "pcs' = pcs @ (prd # nc)" using ih(2) by simp
    show "length (rate # nr) = Suc n" using ih(3) by simp
    show "length (prd # nc) = Suc n" using ih(4) by simp
    show "list_all2 (\<lambda>rate prd. \<exists>gi gi' d.
               mhConverter_default rnd (monthly_production ld) (monthly_defects ld) sigma gi
                 = Inr ((prd, d, rate), gi')) (rate # nr) (prd # nc)"
      using ih(5) step by auto
  qed
qed

lemma control_limits_loop_other:
  assumes "control_limits_loop rnd lines limits g = Inr (limits', g')"
    and "name \<notin> fst ` set lines"
  shows "limits' name = limits name"
  using assms
proof (induction lines arbitrary: limits g)
  case Nil
  then show ?case by simp
next
  case (Cons line lines)
  obtain n ld where line: "line = (n, ld)" by (cases line)
  from Cons.prems(1) obtain l g1 where
    rest: "control_limits_loop rnd lines (limits(n \<mapsto> l)) g1 = Inr (limits', g')"
    unfolding line by (auto split: sum.splits prod.splits)
  from Cons.prems(2) have "name \<noteq> n" and "name \<notin> fst ` set lines"
    unfolding line by auto
  with Cons.IH[OF rest] show ?case by simp
qed

lemma control_limits_loop_line:
  assumes "control_limits_loop rnd lines limits g = Inr (limits', g')"
    and "distinct (map fst lines)" and "(name, ld) \<in> set lines"
  shows "\<exists>g1 g2 l. initialize_control_limits rnd name ld (3 / 100) g1 = Inr (l, g2) \<and>
           limits' name = Some l"
  using assms
proof (induction lines arbitrary: limits g)
  case Nil
  then show ?case by simp
next
  case (Cons line lines)
  obtain n d where line: "line = (n, d)" by (cases line)
  from Cons.prems(1) obtain l g1 where
    first: "initialize_control_limits rnd n d (3 / 100) g = Inr (l, g1)"
    and rest: "control_limits_loop rnd lines (limits(n \<mapsto> l)) g1 = Inr (limits', g')"
    unfolding line by (auto split: sum.splits prod.splits)
  from Cons.prems(2) have fresh: "n \<notin> fst ` set lines" and dist: "distinct (map fst lines)"
    unfolding line by auto
  show ?case
  proof (cases "(name, ld) \<in> set lines")
    case True
    from Cons.IH[OF rest dist True] show ?thesis .
  next
    case False
    with Cons.prems(3) have eq: "name = n" "ld = d" unfolding line by auto
    from control_limits_loop_other[OF rest fresh] have "limits' n = Some l" by simp
    with first eq show ?thesis by blast
  qed
qed

lemma monitoring_loop_limits:
  assumes "monitoring_loop rd rnd sigma lines limits hourly_data current_hour out answers g = Inr r"
  shows "frozen_limits r = limits"
  using assms
proof (induction answers arbitrary: hourly_data current_hour out g)
  case Nil
  then show ?case by (auto split: sum.splits prod.splits)
next
  case (Cons quit answers)
  from Cons.prems obtain hourly_data' out' g1 where
    tick: "tick_lines rd rnd sigma current_hour lines limits hourly_data out g
             = Inr (hourly_data', out', g1)"
    by (auto split: sum.splits prod.splits)
  show ?case
  proof (cases quit)
    case True
    with Cons.prems tick show ?thesis by auto
  next
    case False
    with Cons.prems tick have
      "monitoring_loop rd rnd sigma lines limits hourly_data' (current_hour + 1) out' answers g1 = Inr r"
      by simp
    from Cons.IH[OF this] show ?thesis .
  qed
qed

lemma PRODUCTION_LINES_distinct: "distinct (map fst PRODUCTION_LINES)"
  by (simp add: PRODUCTION_LINES_def)

lemma run_simulation_limits:
  assumes "run_simulation rd rnd sigma answers g = Inr r"
  shows "\<exists>g'. control_limits_loop rnd PRODUCTION_LINES Map.empty g = Inr (frozen_limits r, g')"
proof -
  from assms obtain limits g1 where
    a: "control_limits_loop rnd PRODUCTION_LINES Map.empty g = Inr (limits, g1)"
    and b: "monitoring_loop rd rnd sigma PRODUCTION_LINES limits
          (map_of (map (\<lambda>line. (fst line, \<lparr>hours = [], rates = [], productions = []\<rparr>))
                           PRODUCTION_LINES)) 1 [] answers g1 = Inr r"
    by (auto simp: run_simulation_def Let_def split: sum.splits prod.splits)
  from monitoring_loop_limits[OF b] a show ?thesis by auto
qed

lemma mhConverter_fixed_draws:
  assumes "0 < mp" and "0 \<le> md" and "0 \<le> sigma"
  shows "mhConverter_default (fixed_draws 0 0) mp md sigma ()
           = Inr ((\<lfloor>real_of_int mp / 416\<rfloor>, 0, 0), ())"
proof -
  have a: "0 \<le> real_of_int mp / 416" using assms(1) by simp
  then have b: "0 \<le> real_of_int mp / 416 * sigma" using assms(3) by simp
  have c: "0 \<le> real_of_int md / real_of_int mp * real_of_int \<lfloor>real_of_int mp / 416\<rfloor>"
    using assms(1,2) a by simp
  have nb: "\<not> real_of_int mp / 416 * sigma < 0" using b by simp
  have nc: "\<not> real_of_int md / real_of_int mp * real_of_int \<lfloor>real_of_int mp / 416\<rfloor> < 0"
    using c by simp
  have nz: "mp \<noteq> 0" using assms(1) by simp
  show ?thesis
    unfolding mhConverter_default_def mhConverter_def Let_def np_random_normal_def
      np_random_poisson_def fixed_draws_def py_int_def
    using a nb nc nz by simp
qed

lemma warmup_loop_fixed_draws:
  assumes "0 < monthly_production ld" and "0 \<le> monthly_defects ld" and "0 \<le> sigma"
  shows "warmup_loop n (fixed_draws 0 0) ld sigma frs pcs ()
           = Inr (frs @ replicate n 0,
                  pcs @ replicate n \<lfloor>real_of_int (monthly_production ld) / 416\<rfloor>, ())"
proof (induction n arbitrary: frs pcs)
  case 0
  show ?case by simp
next
  case (Suc n)
  show ?case
    by (simp add: mhConverter_fixed_draws[OF assms] Suc.IH replicate_app_Cons_same)
qed

lemma initialize_fixed_draws:
  assumes "0 < monthly_production ld" and "0 \<le> monthly_defects ld" and "0 \<le> sigma"
  shows "\<exists>l. initialize_control_limits (fixed_draws 0 0) name ld sigma () = Inr (l, ())"
proof -
  obtain l where "calculate_control_limits (replicate 50 0)
       (replicate 50 \<lfloor>real_of_int (monthly_production ld) / 416\<rfloor>) = Inr l"
    using calculate_control_limits_total by blast
  then show ?thesis
    by (simp add: initialize_control_limits_def warmup_loop_fixed_draws[OF assms])
qed

lemma control_limits_loop_fixed_draws:
  assumes "list_all (\<lambda>line. 0 < monthly_production (snd line) \<and> 0 \<le> monthly_defects (snd line)) lines"
  shows "\<exists>limits'. control_limits_loop (fixed_draws 0 0) lines limits () = Inr (limits', ()) \<and>
           dom limits' = dom limits \<union> fst ` set lines"
  using assms
proof (induction lines arbitrary: limits)
  case Nil
  then show ?case by simp
next
  case (Cons line lines)
  obtain n ld where line: "line = (n, ld)" by (cases line)
  from Cons.prems have ok: "0 < monthly_production ld" "0 \<le> monthly_defects ld"
    and rest: "list_all (\<lambda>line. 0 < monthly_production (snd line) \<and> 0 \<le> monthly_defects (snd line)) lines"
    unfolding line by simp_all
  from initialize_fixed_draws[OF ok, of "3 / 100" n] obtain l where
    init: "initialize_control_limits (fixed_draws 0 0) n ld (3 / 100) () = Inr (l, ())" by auto
  from Cons.IH[OF rest, of "limits(n \<mapsto> l)"] obtain limits' where
    "control_limits_loop (fixed_draws 0 0) lines (limits(n \<mapsto> l)) () = Inr (limits', ())"
    "dom limits' = dom (limits(n \<mapsto> l)) \<union> fst ` set lines" by blast
  then show ?case unfolding line by (auto simp: init)
qed

lemma tick_lines_fixed_draws:
  assumes "list_all (\<lambda>line. 0 < monthly_production (snd line) \<and> 0 \<le> monthly_defects (snd line)) lines"
    and "fst ` set lines \<subseteq> dom limits" and "fst ` set lines \<subseteq> dom hourly_data" and "0 \<le> sigma"
  shows "\<exists>hourly_data' out'.
           tick_lines rd (fixed_draws 0 0) sigma current_hour lines limits hourly_data out ()
             = Inr (hourly_data', out', ())"
  using assms(1,2,3)
proof (induction lines arbitrary: hourly_data out)
  case Nil
  then show ?case by simp
next
  case (Cons line lines)
  obtain n ld where line: "line = (n, ld)" by (cases line)
  from Cons.prems(1) have ok: "0 < monthly_production ld" "0 \<le> monthly_defects ld"
    and rest: "list_all (\<lambda>line. 0 < monthly_production (snd line) \<and> 0 \<le> monthly_defects (snd line)) lines"
    unfolding line by simp_all
  from Cons.prems(2) obtain l where l: "limits n = Some l" and sub: "fst ` set lines \<subseteq> dom limits"
    unfolding line by auto
  from Cons.prems(3) obtain h where h: "hourly_data n = Some h"
    and subh: "fst ` set lines \<subseteq> dom hourly_data"
    unfolding line by auto
  have subh': "fst ` set lines \<subseteq> dom (hourly_data(n \<mapsto> h'))" for h'
    using subh by auto
  have ih: "\<exists>hourly_data' out'.
           tick_lines rd (fixed_draws 0 0) sigma current_hour lines limits (hourly_data(n \<mapsto> h')) out1 ()
             = Inr (hourly_data', out', ())" for h' out1
    by (rule Cons.IH[OF rest sub subh'])
  show ?case
    unfolding line
    by (simp add: l h mhConverter_fixed_draws[OF ok assms(4)] Let_def ih)
qed

lemma PRODUCTION_LINES_valid:
  "list_all (\<lambda>line. 0 < monthly_production (snd line) \<and> 0 \<le> monthly_defects (snd line))
     PRODUCTION_LINES"
  by (simp add: PRODUCTION_LINES_def)

lemma run_simulation_fixed_draws:
  assumes "0 \<le> sigma"
  shows "\<exists>r. run_simulation rd (fixed_draws 0 0) sigma [True] () = Inr r"
proof -
  from control_limits_loop_fixed_draws[OF PRODUCTION_LINES_valid, of Map.empty]
  obtain limits where
    loop: "control_limits_loop (fixed_draws 0 0) PRODUCTION_LINES Map.empty () = Inr (limits, ())"
    and dom: "dom limits = fst ` set PRODUCTION_LINES" by auto
  define hourly_data where "hourly_data =
     map_of (map (\<lambda>line. (fst line, \<lparr>hours = [], rates = [], productions = []\<rparr>))
                           PRODUCTION_LINES)"
  have domh: "fst ` set PRODUCTION_LINES \<subseteq> dom hourly_data"
    unfolding hourly_data_def by (simp add: dom_map_of_conv_image_fst image_image)
  have doml: "fst ` set PRODUCTION_LINES \<subseteq> dom limits" using dom by simp
  from tick_lines_fixed_draws[OF PRODUCTION_LINES_valid doml domh assms,
      where rd = rd and current_hour = 1 and out = "[]"]
  obtain hourly_data' out' where
    "tick_lines rd (fixed_draws 0 0) sigma 1 PRODUCTION_LINES limits hourly_data [] ()
       = Inr (hourly_data', out', ())" by blast
  then show ?thesis
    by (simp add: run_simulation_def loop Let_def hourly_data_def[symmetric])
qed


text \<open>
  Claim C5: whatever live \<open>sigma\<close> and answers \<open>run_simulation\<close> is given, in a run that
  ends the frozen limits of every line of the registry are the estimator's result on
  exactly 50 rates and 50 production counts, each pair a sample of \<open>mhConverter\<close> drawn
  with sigma 0.03; and from the same generator state any other live sigma (and any other
  answers) gives the same frozen limits.
\<close>

theorem C5_limits_from_warmup:
  assumes "run_simulation rd rnd sigma answers g = Inr r"
  shows "(\<forall>line_name ld. (line_name, ld) \<in> set PRODUCTION_LINES \<longrightarrow>
           (\<exists>failure_rates production_counts g1 g2 l.
              warmup_loop 50 rnd ld (3 / 100) [] [] g1
                = Inr (failure_rates, production_counts, g2) \<and>
              length failure_rates = 50 \<and> length production_counts = 50 \<and>
              list_all2 (\<lambda>rate prd. \<exists>gi gi' d.
                  mhConverter_default rnd (monthly_production ld) (monthly_defects ld) (3 / 100) gi
                    = Inr ((prd, d, rate), gi'))
                failure_rates production_counts \<and>
              calculate_control_limits failure_rates production_counts = Inr l \<and>
              frozen_limits r line_name = Some l)) \<and>
         (\<forall>sigma' answers' r'. run_simulation rd rnd sigma' answers' g = Inr r'
            \<longrightarrow> frozen_limits r' = frozen_limits r)"
proof (intro conjI allI impI)
  fix line_name ld
  assume mem: "(line_name, ld) \<in> set PRODUCTION_LINES"
  from run_simulation_limits[OF assms] obtain g' where
    loop: "control_limits_loop rnd PRODUCTION_LINES Map.empty g = Inr (frozen_limits r, g')" ..
  from control_limits_loop_line[OF loop PRODUCTION_LINES_distinct mem] obtain g1 g2 l where
    init: "initialize_control_limits rnd line_name ld (3 / 100) g1 = Inr (l, g2)"
    and lim: "frozen_limits r line_name = Some l" by blast
  from init obtain frs pcs where
    w: "warmup_loop 50 rnd ld (3 / 100) [] [] g1 = Inr (frs, pcs, g2)"
    and c: "calculate_control_limits frs pcs = Inr l"
    by (auto simp: initialize_control_limits_def split: sum.splits prod.splits)
  from warmup_loop_samples[OF w] have
    "length frs = 50" "length pcs = 50"
    "list_all2 (\<lambda>rate prd. \<exists>gi gi' d.
        mhConverter_default rnd (monthly_production ld) (monthly_defects ld) (3 / 100) gi
          = Inr ((prd, d, rate), gi')) frs pcs"
    by auto
  with w c lim show "\<exists>failure_rates production_counts g1 g2 l.
              warmup_loop 50 rnd ld (3 / 100) [] [] g1
                = Inr (failure_rates, production_counts, g2) \<and>
              length failure_rates = 50 \<and> length production_counts = 50 \<and>
              list_all2 (\<lambda>rate prd. \<exists>gi gi' d.
                  mhConverter_default rnd (monthly_production ld) (monthly_defects ld) (3 / 100) gi
                    = Inr ((prd, d, rate), gi'))
                failure_rates production_counts \<and>
              calculate_control_limits failure_rates production_counts = Inr l \<and>
              frozen_limits r line_name = Some l"
    by blast
next
  fix sigma' answers' r'
  assume "run_simulation rd rnd sigma' answers' g = Inr r'"
  from run_simulation_limits[OF this] run_simulation_limits[OF assms]
  show "frozen_limits r' = frozen_limits r" by auto
qed



theorem C5_limits_from_warmup_witness:
  "\<exists>r. run_simulation Fin (fixed_draws 0 0) (1 / 5) [True] () = Inr r \<and>
     (\<exists>failure_rates production_counts g1 g2 l.
        warmup_loop 50 (fixed_draws 0 0) \<lparr>monthly_production = 800000, monthly_defects = 11000\<rparr>
            (3 / 100) [] [] g1
          = Inr (failure_rates, production_counts, g2) \<and>
        length failure_rates = 50 \<and> length production_counts = 50 \<and>
        calculate_control_limits failure_rates production_counts = Inr l \<and>
        frozen_limits r ''First Exterior'' = Some l)"
proof -
  have "(0::real) \<le> 1 / 5" by simp
  from run_simulation_fixed_draws[OF this] obtain r where
    run: "run_simulation Fin (fixed_draws 0 0) (1 / 5) [True] () = Inr r" ..
  have mem: "(''First Exterior'', \<lparr>monthly_production = 800000, monthly_defects = 11000\<rparr>)
               \<in> set PRODUCTION_LINES"
    by (simp add: PRODUCTION_LINES_def)
  from C5_limits_from_warmup[OF run] mem run show ?thesis by blast
qed


section \<open>Properties of the Rule Inspector\<close>

lemma last6_inc:
  assumes "length l = 6"
  shows "list_all (\<lambda>i. l ! i < l ! (i + 1)) [0..<5] = sorted_wrt (<) (l :: real list)"
proof -
  have up: "[0..<5] = [0,1,2,3,4::nat]" by (simp add: upt_rec)
  from assms obtain a b c d e f where l: "l = [a,b,c,d,e,f]"
    by (auto simp: length_Suc_conv eval_nat_numeral)
  show ?thesis unfolding l up by auto
qed

lemma last6_dec:
  assumes "length l = 6"
  shows "list_all (\<lambda>i. l ! i > l ! (i + 1)) [0..<5] = sorted_wrt (>) (l :: real list)"
proof -
  have up: "[0..<5] = [0,1,2,3,4::nat]" by (simp add: upt_rec)
  from assms obtain a b c d e f where l: "l = [a,b,c,d,e,f]"
    by (auto simp: length_Suc_conv eval_nat_numeral)
  show ?thesis unfolding l up by auto
qed




lemma inspection_parts:
  "inspection rd data cl ucl lcl =
     (if data = [] then []
      else let r = (if rule1_fires data ucl lcl then [Rule1] else [])
                 @ (if rule2_fires data cl then [Rule2] else [])
                 @ (if rule3_increasing data then [Rule3_increasing]
                    else if rule3_decreasing data then [Rule3_decreasing]
                    else [])
                 @ (if rule4_fires rd data cl ucl then [Rule4] else [])
           in if r = [] then [In_control] else r)"
proof (cases "data = []")
  case True
  then show ?thesis by (simp add: inspection_def)
next
  case False
  define b1 where "b1 = rule1_fires data ucl lcl"
  define b2 where "b2 = rule2_fires data cl"
  define b3i where "b3i = rule3_increasing data"
  define b3d where "b3d = rule3_decreasing data"
  define b4 where "b4 = rule4_fires rd data cl ucl"
  have l6: "6 \<le> length data \<Longrightarrow> length (drop (length data - 6) data) = 6" by simp
  have e1: "(fl_less ucl (Fin (last data)) \<or> fl_less (Fin (last data)) lcl) = b1"
    using False by (simp add: b1_def rule1_fires_def)
  have e2: "(if 7 \<le> length data then
                 (let last_7 = drop (length data - 7) data;
                      above_cl = list_all (\<lambda>x. fl_less cl (Fin x)) last_7;
                      below_cl = list_all (\<lambda>x. fl_less (Fin x) cl) last_7
                  in if above_cl \<or> below_cl then c @ [Rule2] else c)
               else c) = c @ (if b2 then [Rule2] else [])" for c
    by (simp add: b2_def rule2_fires_def Let_def)
  have e3: "(if 6 \<le> length data then
                 (let last_6 = drop (length data - 6) data;
                      increasing = list_all (\<lambda>i. last_6 ! i < last_6 ! (i + 1)) [0..<5];
                      decreasing = list_all (\<lambda>i. last_6 ! i > last_6 ! (i + 1)) [0..<5]
                  in if increasing then c @ [Rule3_increasing]
                     else if decreasing then c @ [Rule3_decreasing]
                     else c)
               else c) = c @ (if b3i then [Rule3_increasing] else if b3d then [Rule3_decreasing] else [])" for c
  proof (cases "6 \<le> length data")
    case True
    show ?thesis
      unfolding Let_def last6_inc[OF l6[OF True]] last6_dec[OF l6[OF True]]
        b3i_def b3d_def rule3_increasing_def rule3_decreasing_def
      using True by simp
  next
    case False
    then show ?thesis by (simp add: b3i_def b3d_def rule3_increasing_def rule3_decreasing_def)
  qed
  have e4: "(if 4 \<le> length data then
                 (let last_4 = drop (length data - 4) data;
                      upper_zone = list_all (\<lambda>x. fl_less cl (Fin x) \<and> fl_less (Fin x) ucl) last_4;
                      mid_upper = dbl_add rd cl (dbl_div rd (dbl_mul rd (dbl_sub rd ucl cl) (Fin 2)) (Fin 3));
                      upper_extreme = list_all (\<lambda>x. fl_less mid_upper (Fin x)) last_4
                  in if upper_extreme \<and> upper_zone then c @ [Rule4] else c)
               else c) = c @ (if b4 then [Rule4] else [])" for c
    by (auto simp add: b4_def rule4_fires_def Let_def list_all_iff)
  have c1: "(if b1 then [] @ [Rule1] else []) = (if b1 then [Rule1] else [])"
    by simp
  have "inspection rd data cl ucl lcl =
     (let r = (((if b1 then [Rule1] else []) @ (if b2 then [Rule2] else [])) @
               (if b3i then [Rule3_increasing] else if b3d then [Rule3_decreasing] else []))
              @ (if b4 then [Rule4] else [])
      in if r = [] then [In_control] else r)"
    unfolding inspection_def Let_def
    apply (simp only: length_0_conv False if_False e1 c1)
    apply (simp only: e2[unfolded Let_def])
    apply (simp only: e3[unfolded Let_def])
    apply (simp only: e4[unfolded Let_def])
    apply (simp only: append_Nil2 if_True if_False split: if_split)
    apply simp
    done
  then show ?thesis using False
    by (simp add: b1_def b2_def b3i_def b3d_def b4_def Let_def)
qed

lemma fl_less_irrefl: "\<not> fl_less a a"
  by (cases a) simp_all

text \<open>
  How the rounding decides Rule 4 on four equal rates inside \<open>(CL, UCL)\<close>: the message
  appears exactly when the rate is above the rounded threshold \<open>m\<close>. A rate equal to the
  double that the threshold rounds to does not fire.
\<close>

lemma inspection_rule4_by_threshold:
  assumes "dbl_add rd cl (dbl_div rd (dbl_mul rd (dbl_sub rd ucl cl) (Fin 2)) (Fin 3)) = Fin m"
    and "fl_less cl (Fin x)" and "fl_less (Fin x) ucl"
  shows "Rule4 \<in> set (inspection rd [x, x, x, x] cl ucl lcl) \<longleftrightarrow> m < x"
proof -
  have "Rule4 \<in> set (inspection rd [x, x, x, x] cl ucl lcl)
          \<longleftrightarrow> rule4_fires rd [x, x, x, x] cl ucl"
    by (simp add: inspection_parts Let_def)
  also have "\<dots> \<longleftrightarrow> m < x"
    using assms by (simp add: rule4_fires_def)
  finally show ?thesis .
qed


text \<open>
  Claim C6: for a non-empty history, the Rule 1 message is in the result exactly when
  the most recent rate is strictly above UCL or strictly below LCL. For limits with
  \<open>LCL \<le> UCL\<close>, a most recent rate equal to UCL or to LCL does not fire Rule 1.
\<close>

theorem C6_rule1_iff:
  assumes "data \<noteq> []"
  shows "(Rule1 \<in> set (inspection rd data cl ucl lcl)
            \<longleftrightarrow> fl_less ucl (Fin (last data)) \<or> fl_less (Fin (last data)) lcl) \<and>
         (\<not> fl_less ucl lcl \<and> (Fin (last data) = ucl \<or> Fin (last data) = lcl)
            \<longrightarrow> Rule1 \<notin> set (inspection rd data cl ucl lcl))"
proof -
  have iff: "Rule1 \<in> set (inspection rd data cl ucl lcl) \<longleftrightarrow> rule1_fires data ucl lcl"
    using assms by (simp add: inspection_parts Let_def)
  have "\<not> rule1_fires data ucl lcl"
    if "\<not> fl_less ucl lcl" and "Fin (last data) = ucl \<or> Fin (last data) = lcl"
    using that by (auto simp: rule1_fires_def fl_less_irrefl)
  with iff show ?thesis using assms by (auto simp: rule1_fires_def)
qed


theorem C6_rule1_iff_witness:
  "[1/100, 1/2] \<noteq> ([]::real list) \<and>
   \<not> fl_less (Fin (1/2)) (Fin 0) \<and> Fin (last [1/100, 1/2]) = Fin (1/2) \<and>
   Rule1 \<notin> set (inspection Fin [1/100, 1/2] (Fin (1/4)) (Fin (1/2)) (Fin 0)) \<and>
   fl_less (Fin (1/2)) (Fin (last [1/100, 501/1000])) \<and>
   Rule1 \<in> set (inspection Fin [1/100, 501/1000] (Fin (1/4)) (Fin (1/2)) (Fin 0))"
  using C6_rule1_iff[where data = "[1/100, 1/2]" and rd = Fin and cl = "Fin (1/4)"
        and ucl = "Fin (1/2)" and lcl = "Fin 0"]
    C6_rule1_iff[where data = "[1/100, 501/1000]" and rd = Fin and cl = "Fin (1/4)"
        and ucl = "Fin (1/2)" and lcl = "Fin 0"]
  by simp

text \<open>
  Claim C7: for a history of at least 4 rates, the Rule 4 message is in the result
  exactly when each of the last 4 rates is strictly between CL and UCL and strictly
  above the double that \<open>CL + (UCL - CL) * 2/3\<close> evaluates to, whatever the rounding of
  the four operations; for a shorter history the message never appears; and a rate equal
  to CL among the last 4 prevents it.
\<close>

theorem C7_rule4_iff:
  "(4 \<le> length data \<longrightarrow>
      (Rule4 \<in> set (inspection rd data cl ucl lcl) \<longleftrightarrow>
         (\<forall>x\<in>set (drop (length data - 4) data).
            fl_less cl (Fin x) \<and> fl_less (Fin x) ucl \<and>
            fl_less (dbl_add rd cl (dbl_div rd (dbl_mul rd (dbl_sub rd ucl cl) (Fin 2)) (Fin 3))) (Fin x)))) \<and>
   (length data < 4 \<longrightarrow> Rule4 \<notin> set (inspection rd data cl ucl lcl)) \<and>
   ((\<exists>x\<in>set (drop (length data - 4) data). Fin x = cl)
      \<longrightarrow> Rule4 \<notin> set (inspection rd data cl ucl lcl))"
proof -
  have iff: "Rule4 \<in> set (inspection rd data cl ucl lcl) \<longleftrightarrow> rule4_fires rd data cl ucl"
    by (simp add: inspection_parts Let_def rule4_fires_def)
  show ?thesis unfolding iff
    by (auto simp: rule4_fires_def list_all_iff fl_less_irrefl)
qed


theorem C7_rule4_iff_witness:
  "4 \<le> length [7/8, 7/8, 7/8, 7/8 :: real] \<and>
   list_all (\<lambda>x. fl_less (Fin (1/4)) (Fin x) \<and> fl_less (Fin x) (Fin 1) \<and>
      fl_less (dbl_add Fin (Fin (1/4))
                 (dbl_div Fin (dbl_mul Fin (dbl_sub Fin (Fin 1) (Fin (1/4))) (Fin 2)) (Fin 3)))
              (Fin x))
     (drop (length [7/8, 7/8, 7/8, 7/8 :: real] - 4) [7/8, 7/8, 7/8, 7/8]) \<and>
   Rule4 \<in> set (inspection Fin [7/8, 7/8, 7/8, 7/8] (Fin (1/4)) (Fin 1) (Fin 0)) \<and>
   length [7/8, 7/8, 7/8 :: real] < 4 \<and>
   Rule4 \<notin> set (inspection Fin [7/8, 7/8, 7/8] (Fin (1/4)) (Fin 1) (Fin 0)) \<and>
   (\<exists>x\<in>set (drop (length [7/8, 7/8, 7/8, 1/4 :: real] - 4) [7/8, 7/8, 7/8, 1/4]).
      Fin x = Fin (1/4)) \<and>
   Rule4 \<notin> set (inspection Fin [7/8, 7/8, 7/8, 1/4] (Fin (1/4)) (Fin 1) (Fin 0))"
proof -
  have mid: "dbl_add Fin (Fin (1/4))
               (dbl_div Fin (dbl_mul Fin (dbl_sub Fin (Fin 1) (Fin (1/4))) (Fin 2)) (Fin 3))
             = Fin (3/4)"
    by (simp add: fl_sub_def fl_round_def dbl_add_def dbl_sub_def dbl_mul_def dbl_div_def)
  have a: "Rule4 \<in> set (inspection Fin [7/8, 7/8, 7/8, 7/8] (Fin (1/4)) (Fin 1) (Fin 0))"
    using C7_rule4_iff[where data = "[7/8, 7/8, 7/8, 7/8]" and rd = Fin and cl = "Fin (1/4)"
        and ucl = "Fin 1" and lcl = "Fin 0"]
    by (simp add: mid)
  have b: "Rule4 \<notin> set (inspection Fin [7/8, 7/8, 7/8] (Fin (1/4)) (Fin 1) (Fin 0))"
    using C7_rule4_iff[where data = "[7/8, 7/8, 7/8]" and rd = Fin and cl = "Fin (1/4)"
        and ucl = "Fin 1" and lcl = "Fin 0"]
    by simp
  have mem: "\<exists>x\<in>set (drop (length [7/8, 7/8, 7/8, 1/4 :: real] - 4) [7/8, 7/8, 7/8, 1/4]).
               Fin x = Fin (1/4)"
    by (rule bexI[where x = "1/4"]) simp_all
  have c: "Rule4 \<notin> set (inspection Fin [7/8, 7/8, 7/8, 1/4] (Fin (1/4)) (Fin 1) (Fin 0))"
    using C7_rule4_iff[where data = "[7/8, 7/8, 7/8, 1/4]" and rd = Fin and cl = "Fin (1/4)"
        and ucl = "Fin 1" and lcl = "Fin 0"] mem
    by blast
  show ?thesis using a b c mem by (simp add: mid)
qed

text \<open>
  Claim C8: the empty history gives the empty result; a non-empty history on which none
  of the four rules fires gives exactly the single in-control marker. The rules are the
  conditions of the rule table, the two-thirds point of Rule 4 being the double that the
  program computes.
\<close>

theorem C8_in_control_marker:
  "inspection rd [] cl ucl lcl = [] \<and>
   (data \<noteq> [] \<and> \<not> rule1_fires data ucl lcl \<and> \<not> rule2_fires data cl \<and>
    \<not> rule3_increasing data \<and> \<not> rule3_decreasing data \<and> \<not> rule4_fires rd data cl ucl
      \<longrightarrow> inspection rd data cl ucl lcl = [In_control])"
  by (simp add: inspection_parts)

theorem C8_in_control_marker_witness:
  "[1/8, 1/2, 1/8, 1/2, 5/8, 1/2, 5/8] \<noteq> ([]::real list) \<and>
   \<not> rule1_fires [1/8, 1/2, 1/8, 1/2, 5/8, 1/2, 5/8] (Fin 1) (Fin 0) \<and>
   \<not> rule2_fires [1/8, 1/2, 1/8, 1/2, 5/8, 1/2, 5/8] (Fin (1/4)) \<and>
   \<not> rule3_increasing [1/8, 1/2, 1/8, 1/2, 5/8, 1/2, 5/8] \<and>
   \<not> rule3_decreasing [1/8, 1/2, 1/8, 1/2, 5/8, 1/2, 5/8] \<and>
   \<not> rule4_fires Fin [1/8, 1/2, 1/8, 1/2, 5/8, 1/2, 5/8] (Fin (1/4)) (Fin 1) \<and>
   inspection Fin [1/8, 1/2, 1/8, 1/2, 5/8, 1/2, 5/8] (Fin (1/4)) (Fin 1) (Fin 0) = [In_control]"
proof -
  have r1: "\<not> rule1_fires [1/8, 1/2, 1/8, 1/2, 5/8, 1/2, 5/8] (Fin 1) (Fin 0)"
    by (simp add: rule1_fires_def)
  have r2: "\<not> rule2_fires [1/8, 1/2, 1/8, 1/2, 5/8, 1/2, 5/8] (Fin (1/4))"
    by (simp add: rule2_fires_def)
  have r3i: "\<not> rule3_increasing [1/8, 1/2, 1/8, 1/2, 5/8, 1/2, 5/8]"
    by (simp add: rule3_increasing_def)
  have r3d: "\<not> rule3_decreasing [1/8, 1/2, 1/8, 1/2, 5/8, 1/2, 5/8]"
    by (simp add: rule3_decreasing_def)
  have r4: "\<not> rule4_fires Fin [1/8, 1/2, 1/8, 1/2, 5/8, 1/2, 5/8] (Fin (1/4)) (Fin 1)"
    by (simp add: rule4_fires_def fl_sub_def fl_round_def dbl_add_def dbl_sub_def dbl_mul_def
        dbl_div_def)
  have ne: "[1/8, 1/2, 1/8, 1/2, 5/8, 1/2, 5/8] \<noteq> ([]::real list)" by simp
  from C8_in_control_marker[where rd = Fin and cl = "Fin (1/4)" and ucl = "Fin 1" and lcl = "Fin 0"
        and data = "[1/8, 1/2, 1/8, 1/2, 5/8, 1/2, 5/8]"]
    ne r1 r2 r3i r3d r4
  show ?thesis by blast
qed

text \<open>
  Claim C10: for a non-empty history the result holds no message twice, never both the
  increasing and the decreasing message of Rule 3, at most 4 rule messages, and between
  1 and 4 entries in all.
\<close>

theorem C10_result_size:
  assumes "data \<noteq> []"
  shows "distinct (inspection rd data cl ucl lcl) \<and>
         \<not> (Rule3_increasing \<in> set (inspection rd data cl ucl lcl) \<and>
            Rule3_decreasing \<in> set (inspection rd data cl ucl lcl)) \<and>
         length (filter (\<lambda>c. c \<noteq> In_control) (inspection rd data cl ucl lcl)) \<le> 4 \<and>
         1 \<le> length (inspection rd data cl ucl lcl) \<and> length (inspection rd data cl ucl lcl) \<le> 4"
  using assms by (simp add: inspection_parts Let_def)

theorem C10_result_size_witness:
  "[1/100, 2/100, 3/100, 4/100, 5/100, 6/100] \<noteq> ([]::real list) \<and>
   distinct (inspection Fin [1/100, 2/100, 3/100, 4/100, 5/100, 6/100] (Fin (1/4)) (Fin (1/2)) (Fin 0)) \<and>
   1 \<le> length (inspection Fin [1/100, 2/100, 3/100, 4/100, 5/100, 6/100] (Fin (1/4)) (Fin (1/2)) (Fin 0)) \<and>
   length (inspection Fin [1/100, 2/100, 3/100, 4/100, 5/100, 6/100] (Fin (1/4)) (Fin (1/2)) (Fin 0)) \<le> 4"
  using C10_result_size[where data = "[1/100, 2/100, 3/100, 4/100, 5/100, 6/100]" and rd = Fin
      and cl = "Fin (1/4)" and ucl = "Fin (1/2)" and lcl = "Fin 0"]
  by simp

end
